theory Spec2Isabelle
  imports Main
begin

section \<open>Data model\<close>

text \<open>
  The types of \<^verbatim>\<open>../types\<close> are only imported by the two source files. A
  \<^verbatim>\<open>LeaveRequest\<close> is a record of which the code reads the field \<^verbatim>\<open>status\<close>
  alone; every other field lives in the extension of the record scheme. \<^verbatim>\<open>Student\<close>
  and \<^verbatim>\<open>LeaveStatusUpdate\<close> are never inspected and stay type parameters
  (\<open>'s\<close> and \<open>'u\<close>).
\<close>

record LeaveRequest =
  status :: string

record StatusCount =
  pending :: nat
  approved :: nat
  rejected :: nat
  total :: nat

text \<open>The value caught by a \<^verbatim>\<open>catch\<close> clause: whatever the HTTP client rejected with.\<close>

datatype failure = Failure string

text \<open>
  The five \<^verbatim>\<open>useState\<close> slots of \<^verbatim>\<open>LeaveProvider\<close>. The field \<open>error\<close> is
  \<^verbatim>\<open>string | null\<close>.
\<close>

record ('r, 's) LeaveState =
  leaveRequests :: "'r LeaveRequest_scheme list"
  loading :: bool
  error :: "string option"
  allStudents :: "'s list"
  statusCounts :: StatusCount

definition zeroCounts :: StatusCount where
  "zeroCounts = \<lparr>pending = 0, approved = 0, rejected = 0, total = 0\<rparr>"

text \<open>The initial values passed to \<^verbatim>\<open>useState\<close> (source lines 31 to 40).\<close>

definition initialState :: "('r, 's) LeaveState" where
  "initialState =
     \<lparr>leaveRequests = [], loading = True, error = None, allStudents = [],
      statusCounts = zeroCounts\<rparr>"

section \<open>Status counts\<close>

text \<open>
  The body of the \<^verbatim>\<open>forEach\<close> callback of \<^verbatim>\<open>calculateStatusCounts\<close>: an
  \<^verbatim>\<open>if / else if / else if\<close> chain without a final \<^verbatim>\<open>else\<close>.
\<close>

definition countRequest :: "'r LeaveRequest_scheme \<Rightarrow> StatusCount \<Rightarrow> StatusCount" where
  "countRequest request counts =
     (if status request = ''pending'' then counts\<lparr>pending := pending counts + 1\<rparr>
      else if status request = ''approved'' then counts\<lparr>approved := approved counts + 1\<rparr>
      else if status request = ''rejected'' then counts\<lparr>rejected := rejected counts + 1\<rparr>
      else counts)"

definition calculateStatusCounts :: "'r LeaveRequest_scheme list \<Rightarrow> StatusCount" where
  "calculateStatusCounts requests =
     fold countRequest requests
       \<lparr>pending = 0, approved = 0, rejected = 0, total = length requests\<rparr>"

text \<open>How many requests of a collection carry a given status, and how many carry none of
  the three known ones.\<close>

definition withStatus :: "string \<Rightarrow> 'r LeaveRequest_scheme list \<Rightarrow> nat" where
  "withStatus st requests = length (filter (\<lambda>r. status r = st) requests)"

definition unrecognized :: "'r LeaveRequest_scheme list \<Rightarrow> nat" where
  "unrecognized requests =
     length (filter (\<lambda>r. status r \<noteq> ''pending'' \<and> status r \<noteq> ''approved''
                          \<and> status r \<noteq> ''rejected'') requests)"

section \<open>The remote API client\<close>

text \<open>
  One call of \<^verbatim>\<open>apiClient.get\<close> or \<^verbatim>\<open>apiClient.post\<close>: the path relative to
  the fixed base URL and, for a POST, the payload.
\<close>

datatype 'b http_request = GET string | POST string 'b

text \<open>The part of an axios response that the code reads.\<close>

record 'a response =
  data :: 'a

text \<open>What an operation of \<^verbatim>\<open>leaveService\<close> does besides returning or throwing.\<close>

datatype 'b effect =
    HttpCall "'b http_request"
  | ConsoleError string failure

text \<open>
  Every operation of \<^verbatim>\<open>leaveService\<close> is an \<^verbatim>\<open>async\<close> function with one
  \<^verbatim>\<open>await\<close>. It is modelled as a pair: the request that is issued before the
  \<^verbatim>\<open>await\<close>, and the code that runs once the request has settled, which maps the
  outcome of the request (\<open>Inl\<close> the rejection, \<open>Inr\<close> the response) to the effects
  performed and to the outcome of the operation (\<open>Inl\<close> the value thrown, \<open>Inr\<close>
  the value returned).
\<close>

type_synonym ('b, 'a) service_call =
  "'b http_request \<times> (failure + 'a response \<Rightarrow> 'b effect list \<times> (failure + 'a))"

text \<open>
  An operation that can throw before it issues its request has two ways to run: it
  reaches its \<^verbatim>\<open>await\<close> (\<open>Awaits\<close>), or it is over without any request, through
  its \<^verbatim>\<open>catch\<close> clause (\<open>Finished\<close>, with the effects performed and the outcome).
\<close>

datatype ('b, 'a) service_op =
    Awaits "('b, 'a) service_call"
  | Finished "'b effect list \<times> (failure + 'a)"

text \<open>
  An optional \<^verbatim>\<open>status?: string\<close> argument is \<open>None\<close> when it is left out; the
  condition \<^verbatim>\<open>status ? ... : ...\<close> is false for a missing argument and for the
  empty string, the one string that is not truthy.
\<close>

definition truthy :: "string \<Rightarrow> bool" where
  "truthy s = (s \<noteq> [])"

definition leaveService_getAllLeaveRequests :: "('b, 'a) service_call" where
  "leaveService_getAllLeaveRequests =
     (GET ''/get_all_leave_requests'',
      \<lambda>outcome. case outcome of
          Inr response \<Rightarrow> ([], Inr (data response))
        | Inl err \<Rightarrow> ([ConsoleError ''Error fetching leave requests:'' err], Inl err))"

definition leaveService_getLeaveHistory ::
  "string \<Rightarrow> string option \<Rightarrow> ('b, 'a) service_call" where
  "leaveService_getLeaveHistory studentId st =
     (GET (case st of
             Some s \<Rightarrow>
               if truthy s then ''/get_leave_history/'' @ studentId @ ''?status='' @ s
               else ''/get_leave_history/'' @ studentId
           | None \<Rightarrow> ''/get_leave_history/'' @ studentId),
      \<lambda>outcome. case outcome of
          Inr response \<Rightarrow> ([], Inr (data response))
        | Inl err \<Rightarrow>
            ([ConsoleError (''Error fetching leave history for student '' @ studentId @ '':'')
                err], Inl err))"

text \<open>
  A JavaScript string is a sequence of 16-bit code units, and a surrogate code unit
  need not be part of a pair. A \<open>string\<close> here is the list of the bytes of the UTF-8
  encoding of the code points of the JavaScript string, where a lone surrogate, a code
  point of its own between U+D800 and U+DFFF, is encoded like its neighbours in three
  bytes: \<open>0xED\<close>, then a byte from \<open>0xA0\<close> to \<open>0xBF\<close>, then one more. In the encoding
  of any other code point the byte after \<open>0xED\<close> is below \<open>0xA0\<close>.

  \<^verbatim>\<open>encodeURIComponent\<close>, a built-in of the language, keeps the letters, the digits
  and the marks \<^verbatim>\<open>- _ . ! ~ * ' ( )\<close>, replaces every other code point by its UTF-8
  bytes, each written as \<^verbatim>\<open>%\<close> and two upper-case hexadecimal digits, and throws a
  \<^verbatim>\<open>URIError\<close> when the string has a lone surrogate.
\<close>

definition unreserved :: "char \<Rightarrow> bool" where
  "unreserved c =
     (c \<in> set (''ABCDEFGHIJKLMNOPQRSTUVWXYZabcdefghijklmnopqrstuvwxyz0123456789-_.!~*()''
               @ [CHR 0x27]))"

text \<open>Applied to the two halves of a byte only, so the index is below 16.\<close>

definition hexDigit :: "nat \<Rightarrow> char" where
  "hexDigit n = ''0123456789ABCDEF'' ! n"

definition percentEncoded :: "char \<Rightarrow> string" where
  "percentEncoded c =
     [CHR ''%'', hexDigit ((of_char c :: nat) div 16), hexDigit ((of_char c :: nat) mod 16)]"

definition URIError :: failure where
  "URIError = Failure ''URIError: URI malformed''"

fun encodeURIComponent :: "string \<Rightarrow> failure + string" where
  "encodeURIComponent [] = Inr []"
| "encodeURIComponent (c # cs) =
     (if unreserved c then
        (case encodeURIComponent cs of Inl err \<Rightarrow> Inl err | Inr rest \<Rightarrow> Inr (c # rest))
      else if (of_char c :: nat) = 0xED
              \<and> (case cs of [] \<Rightarrow> False | d # _ \<Rightarrow> 0xA0 \<le> (of_char d :: nat))
      then Inl URIError
      else
        (case encodeURIComponent cs of
           Inl err \<Rightarrow> Inl err
         | Inr rest \<Rightarrow> Inr (percentEncoded c @ rest)))"

text \<open>
  \<^verbatim>\<open>getLeaveHistoryByName\<close> builds its URL inside the \<^verbatim>\<open>try\<close>: when
  \<^verbatim>\<open>encodeURIComponent\<close> throws, the \<^verbatim>\<open>catch\<close> clause runs on what it threw and
  no request is issued.
\<close>

definition leaveService_getLeaveHistoryByName ::
  "string \<Rightarrow> string option \<Rightarrow> ('b, 'a) service_op" where
  "leaveService_getLeaveHistoryByName name st =
     (let settle = (\<lambda>outcome. case outcome of
          Inr response \<Rightarrow> ([], Inr (data response))
        | Inl err \<Rightarrow>
            ([ConsoleError (''Error fetching leave history for student name '' @ name @ '':'')
                err], Inl err))
      in case (case st of
                 Some s \<Rightarrow>
                   if truthy s
                   then (case encodeURIComponent name of
                           Inl err \<Rightarrow> Inl err
                         | Inr encoded \<Rightarrow>
                             Inr (''/get_leave_history_by_name?name='' @ encoded
                                    @ ''&status='' @ s))
                   else (case encodeURIComponent name of
                           Inl err \<Rightarrow> Inl err
                         | Inr encoded \<Rightarrow> Inr (''/get_leave_history_by_name?name='' @ encoded))
               | None \<Rightarrow>
                   (case encodeURIComponent name of
                      Inl err \<Rightarrow> Inl err
                    | Inr encoded \<Rightarrow> Inr (''/get_leave_history_by_name?name='' @ encoded))) of
           Inl err \<Rightarrow> Finished (settle (Inl err))
         | Inr url \<Rightarrow> Awaits (GET url, settle))"

definition leaveService_submitLeaveRequest :: "'b \<Rightarrow> ('b, 'a) service_call" where
  "leaveService_submitLeaveRequest leaveRequest =
     (POST ''/submit_leave'' leaveRequest,
      \<lambda>outcome. case outcome of
          Inr response \<Rightarrow> ([], Inr (data response))
        | Inl err \<Rightarrow> ([ConsoleError ''Error submitting leave request:'' err], Inl err))"

definition leaveService_updateLeaveStatus :: "'b \<Rightarrow> ('b, 'a) service_call" where
  "leaveService_updateLeaveStatus update =
     (POST ''/update_leave_status'' update,
      \<lambda>outcome. case outcome of
          Inr response \<Rightarrow> ([], Inr (data response))
        | Inl err \<Rightarrow> ([ConsoleError ''Error updating leave status:'' err], Inl err))"

definition leaveService_registerStudent :: "'b \<Rightarrow> ('b, 'a) service_call" where
  "leaveService_registerStudent student =
     (POST ''/register_student'' student,
      \<lambda>outcome. case outcome of
          Inr response \<Rightarrow> ([], Inr (data response))
        | Inl err \<Rightarrow> ([ConsoleError ''Error registering student:'' err], Inl err))"

definition leaveService_sendAIQuery :: "'b \<Rightarrow> ('b, 'a) service_call" where
  "leaveService_sendAIQuery request =
     (POST ''/ai_query'' request,
      \<lambda>outcome. case outcome of
          Inr response \<Rightarrow> ([], Inr (data response))
        | Inl err \<Rightarrow> ([ConsoleError ''Error sending AI query:'' err], Inl err))"

definition leaveService_getTotalStudents :: "('b, 'a) service_call" where
  "leaveService_getTotalStudents =
     (GET ''/get_total_students'',
      \<lambda>outcome. case outcome of
          Inr response \<Rightarrow> ([], Inr (data response))
        | Inl err \<Rightarrow> ([ConsoleError ''Error fetching total students:'' err], Inl err))"

definition leaveService_getAllStudents :: "('b, 'a) service_call" where
  "leaveService_getAllStudents =
     (GET ''/get_all_students'',
      \<lambda>outcome. case outcome of
          Inr response \<Rightarrow> ([], Inr (data response))
        | Inl err \<Rightarrow> ([ConsoleError ''Error fetching all students:'' err], Inl err))"

text \<open>
  A complete run of an operation against a client whose answer to each request is given
  by \<open>apiClient\<close>: the request is issued, then the rest of the operation runs on its
  outcome.
\<close>

definition perform ::
  "('b http_request \<Rightarrow> failure + 'a response) \<Rightarrow> ('b, 'a) service_call
     \<Rightarrow> 'b effect list \<times> (failure + 'a)" where
  "perform apiClient call =
     (HttpCall (fst call) # fst (snd call (apiClient (fst call))),
      snd (snd call (apiClient (fst call))))"

definition invoke ::
  "('b http_request \<Rightarrow> failure + 'a response) \<Rightarrow> ('b, 'a) service_op
     \<Rightarrow> 'b effect list \<times> (failure + 'a)" where
  "invoke apiClient oper =
     (case oper of
        Awaits call \<Rightarrow> perform apiClient call
      | Finished outcome \<Rightarrow> outcome)"

text \<open>The nine operations of \<^verbatim>\<open>leaveService\<close>, at given arguments.\<close>

definition leaveService ::
  "string \<Rightarrow> string \<Rightarrow> string option \<Rightarrow> 'b \<Rightarrow> 'b \<Rightarrow> 'b \<Rightarrow> 'b \<Rightarrow> ('b, 'a) service_op list" where
  "leaveService studentId name st leaveRequest update student request =
     [Awaits leaveService_getAllLeaveRequests,
      Awaits (leaveService_getLeaveHistory studentId st),
      leaveService_getLeaveHistoryByName name st,
      Awaits (leaveService_submitLeaveRequest leaveRequest),
      Awaits (leaveService_updateLeaveStatus update),
      Awaits (leaveService_registerStudent student),
      Awaits (leaveService_sendAIQuery request),
      Awaits leaveService_getTotalStudents,
      Awaits leaveService_getAllStudents]"

definition httpCalls :: "'b effect list \<Rightarrow> 'b http_request list" where
  "httpCalls effs = concat (map (\<lambda>e. case e of HttpCall r \<Rightarrow> [r] | ConsoleError _ _ \<Rightarrow> []) effs)"

definition loggedFailures :: "'b effect list \<Rightarrow> failure list" where
  "loggedFailures effs =
     concat (map (\<lambda>e. case e of HttpCall _ \<Rightarrow> [] | ConsoleError _ err \<Rightarrow> [err]) effs)"

definition loggedContexts :: "'b effect list \<Rightarrow> string list" where
  "loggedContexts effs =
     concat (map (\<lambda>e. case e of HttpCall _ \<Rightarrow> [] | ConsoleError context _ \<Rightarrow> [context]) effs)"

text \<open>A client that rejects every request with the same failure.\<close>

definition rejecting :: "failure \<Rightarrow> 'b http_request \<Rightarrow> failure + 'a response" where
  "rejecting err req = Inl err"

section \<open>The state container\<close>

text \<open>
  The two fetch operations of the container; \<open>Invoked\<close> and \<open>Settled\<close> mark the call
  of one and the moment its promise settles. The variable \<^verbatim>\<open>data\<close> of the source is
  \<open>fetched\<close> below, \<open>data\<close> being the field of the response; it has the type the
  service declares for it, \<^verbatim>\<open>LeaveRequest[]\<close> or \<^verbatim>\<open>Student[]\<close>.
\<close>

datatype operation = FetchLeaveRequests | FetchAllStudents

text \<open>
  What the container does, in order: calls of the five state setters, effects of the API
  client and of its own \<^verbatim>\<open>console.error\<close>, and its two \<^verbatim>\<open>console.log\<close> lines.
\<close>

datatype ('r, 's, 'u) event =
    SetLeaveRequests "'r LeaveRequest_scheme list"
  | SetLoading bool
  | SetError "string option"
  | SetAllStudents "'s list"
  | SetStatusCounts StatusCount
  | Effect "'u effect"
  | ConsoleLogRequests string "'r LeaveRequest_scheme list"
  | ConsoleLogStudents string "'s list"
  | Invoked operation
  | Settled operation

fun apply_event :: "('r, 's, 'u) event \<Rightarrow> ('r, 's) LeaveState \<Rightarrow> ('r, 's) LeaveState" where
  "apply_event (SetLeaveRequests v) s = s\<lparr>leaveRequests := v\<rparr>"
| "apply_event (SetLoading v) s = s\<lparr>loading := v\<rparr>"
| "apply_event (SetError v) s = s\<lparr>error := v\<rparr>"
| "apply_event (SetAllStudents v) s = s\<lparr>allStudents := v\<rparr>"
| "apply_event (SetStatusCounts v) s = s\<lparr>statusCounts := v\<rparr>"
| "apply_event (Effect _) s = s"
| "apply_event (ConsoleLogRequests _ _) s = s"
| "apply_event (ConsoleLogStudents _ _) s = s"
| "apply_event (Invoked _) s = s"
| "apply_event (Settled _) s = s"

text \<open>The state after a sequence of events, and the states passed through on the way.\<close>

definition exec :: "('r, 's, 'u) event list \<Rightarrow> ('r, 's) LeaveState \<Rightarrow> ('r, 's) LeaveState" where
  "exec evs s = fold apply_event evs s"

fun history :: "('r, 's) LeaveState \<Rightarrow> ('r, 's, 'u) event list \<Rightarrow> ('r, 's) LeaveState list" where
  "history s [] = []"
| "history s (e # es) = apply_event e s # history (apply_event e s) es"

text \<open>
  An \<^verbatim>\<open>async\<close> function of the container runs without interruption up to its
  \<^verbatim>\<open>await\<close> and again from the moment the awaited promise settles. Each such
  stretch is a list of events; a function that awaits once is its stretch before the
  \<^verbatim>\<open>await\<close> (\<open>_begin\<close>) and its stretch after it (\<open>_resume\<close>), which depends on
  the outcome of the request and yields, with the events, how the promise of the function
  settles: \<open>None\<close> when it is fulfilled, \<open>Some err\<close> when it is rejected with \<open>err\<close>.
  A stretch after an \<^verbatim>\<open>await\<close> starts with what the operation of \<^verbatim>\<open>leaveService\<close>
  does on the outcome; that part only logs, so every write to the state in a stretch
  happens in one uninterrupted block of the container's own code.
  The functions without a parameter take \<open>()\<close>, as in the source.
\<close>

definition fetchAllStudents_begin :: "unit \<Rightarrow> ('r, 's, 'u) event list" where
  "fetchAllStudents_begin _ =
     [Invoked FetchAllStudents,
      SetError None,
      Effect (HttpCall (fst (leaveService_getAllStudents :: ('u, 's list) service_call)))]"

definition fetchAllStudents_resume ::
  "failure + 's list response \<Rightarrow> ('r, 's, 'u) event list \<times> failure option" where
  "fetchAllStudents_resume outcome =
     (case snd leaveService_getAllStudents outcome of
        (effs, Inr fetched) \<Rightarrow>
          (map Effect effs @
           [SetAllStudents fetched,
            ConsoleLogStudents ''LeaveContext - Fetched students data:'' fetched,
            Settled FetchAllStudents], None)
      | (effs, Inl err) \<Rightarrow>
          (map Effect effs @
           [SetError (Some ''Failed to fetch students. Please try again later.''),
            Effect (ConsoleError ''Error fetching all students:'' err),
            SetAllStudents [],
            Settled FetchAllStudents], None))"

definition fetchAllStudents :: "failure + 's list response \<Rightarrow> ('r, 's, 'u) event list" where
  "fetchAllStudents outcome = fetchAllStudents_begin () @ fst (fetchAllStudents_resume outcome)"

definition fetchLeaveRequests_begin :: "unit \<Rightarrow> ('r, 's, 'u) event list" where
  "fetchLeaveRequests_begin _ =
     [Invoked FetchLeaveRequests,
      SetError None,
      Effect (HttpCall
        (fst (leaveService_getAllLeaveRequests :: ('u, 'r LeaveRequest_scheme list) service_call)))]"

definition fetchLeaveRequests_resume ::
  "failure + 'r LeaveRequest_scheme list response \<Rightarrow> ('r, 's, 'u) event list \<times> failure option"
  where
  "fetchLeaveRequests_resume outcome =
     (case snd leaveService_getAllLeaveRequests outcome of
        (effs, Inr fetched) \<Rightarrow>
          (map Effect effs @
           [SetLeaveRequests fetched,
            SetStatusCounts (calculateStatusCounts fetched),
            ConsoleLogRequests ''LeaveContext - Fetched leave requests:'' fetched,
            Settled FetchLeaveRequests], None)
      | (effs, Inl err) \<Rightarrow>
          (map Effect effs @
           [SetError (Some ''Failed to fetch leave requests. Please try again later.''),
            Effect (ConsoleError ''Error fetching leave requests:'' err),
            SetLeaveRequests [],
            SetStatusCounts \<lparr>pending = 0, approved = 0, rejected = 0, total = 0\<rparr>,
            Settled FetchLeaveRequests], None))"

definition fetchLeaveRequests ::
  "failure + 'r LeaveRequest_scheme list response \<Rightarrow> ('r, 's, 'u) event list" where
  "fetchLeaveRequests outcome =
     fetchLeaveRequests_begin () @ fst (fetchLeaveRequests_resume outcome)"

text \<open>
  \<^verbatim>\<open>Promise.all([fetchLeaveRequests(), fetchAllStudents()])\<close>. Both functions have run
  up to their \<^verbatim>\<open>await\<close> when \<^verbatim>\<open>Promise.all\<close> is called; which of the two requests
  settles first is not in the hands of the program and is the parameter \<open>arrival\<close>.
  \<^verbatim>\<open>Promise.all\<close> is rejected as soon as one of its promises is, without waiting for the
  other, and is fulfilled once both are. The result is how \<^verbatim>\<open>Promise.all\<close> settles,
  the events up to that moment, and the events of a function that is still running
  after it.
\<close>

datatype arrival = LeaveRequestsFirst | StudentsFirst

definition promiseAll ::
  "arrival \<Rightarrow> 'e list \<times> failure option \<Rightarrow> 'e list \<times> failure option
     \<Rightarrow> failure option \<times> 'e list \<times> 'e list" where
  "promiseAll arr requests students =
     (let (earlier, later) =
            (case arr of LeaveRequestsFirst \<Rightarrow> (requests, students)
                       | StudentsFirst \<Rightarrow> (students, requests))
      in case snd earlier of
           Some err \<Rightarrow> (Some err, fst earlier, fst later)
         | None \<Rightarrow> (snd later, fst earlier @ fst later, []))"

text \<open>
  \<^verbatim>\<open>updateLeaveStatus\<close> awaits twice. Its stretches: up to the request of the update;
  from the outcome of that request to \<^verbatim>\<open>Promise.all\<close>, or through \<^verbatim>\<open>catch\<close> and
  \<^verbatim>\<open>finally\<close> when the request failed; and \<^verbatim>\<open>catch\<close> and \<^verbatim>\<open>finally\<close> once
  \<^verbatim>\<open>Promise.all\<close> has settled.
\<close>

definition updateLeaveStatus_begin :: "'u \<Rightarrow> ('r, 's, 'u) event list" where
  "updateLeaveStatus_begin update =
     [SetLoading True,
      SetError None,
      Effect (HttpCall (fst (leaveService_updateLeaveStatus update :: ('u, unit) service_call)))]"

definition updateLeaveStatus_failed :: "failure \<Rightarrow> ('r, 's, 'u) event list" where
  "updateLeaveStatus_failed err =
     [SetError (Some ''Failed to update leave status. Please try again.''),
      Effect (ConsoleError ''Error updating leave status:'' err),
      SetLoading False]"

definition updateLeaveStatus_settle :: "failure option \<Rightarrow> ('r, 's, 'u) event list" where
  "updateLeaveStatus_settle result =
     (case result of
        None \<Rightarrow> [SetLoading False]
      | Some err \<Rightarrow> updateLeaveStatus_failed err)"

text \<open>The second component tells whether the function goes on to \<^verbatim>\<open>Promise.all\<close>.\<close>

definition updateLeaveStatus_resume ::
  "'u \<Rightarrow> failure + 'm response \<Rightarrow> ('r, 's, 'u) event list \<times> bool" where
  "updateLeaveStatus_resume update updated =
     (case snd (leaveService_updateLeaveStatus update) updated of
        (effs, Inl err) \<Rightarrow> (map Effect effs @ updateLeaveStatus_failed err, False)
      | (effs, Inr _) \<Rightarrow>
          (map Effect effs @ fetchLeaveRequests_begin () @ fetchAllStudents_begin (), True))"

definition updateLeaveStatus ::
  "'u \<Rightarrow> failure + 'm response \<Rightarrow> arrival \<Rightarrow> failure + 'r LeaveRequest_scheme list response
     \<Rightarrow> failure + 's list response \<Rightarrow> ('r, 's, 'u) event list" where
  "updateLeaveStatus update updated arr requests students =
     updateLeaveStatus_begin update @
     (case updateLeaveStatus_resume update updated of
        (evs, False) \<Rightarrow> evs
      | (evs, True) \<Rightarrow>
          evs @
          (case promiseAll arr (fetchLeaveRequests_resume requests)
                  (fetchAllStudents_resume students) of
             (result, before, after) \<Rightarrow> before @ updateLeaveStatus_settle result @ after))"

text \<open>\<^verbatim>\<open>initialFetch\<close>, the function run by the effect of \<^verbatim>\<open>LeaveProvider\<close>.\<close>

definition initialFetch_begin :: "unit \<Rightarrow> ('r, 's, 'u) event list" where
  "initialFetch_begin _ =
     [SetLoading True, SetError None] @ fetchLeaveRequests_begin () @ fetchAllStudents_begin ()"

definition initialFetch_settle :: "failure option \<Rightarrow> ('r, 's, 'u) event list" where
  "initialFetch_settle result =
     (case result of
        None \<Rightarrow> [SetLoading False]
      | Some err \<Rightarrow> [Effect (ConsoleError ''Initial data fetch failed:'' err), SetLoading False])"

definition initialFetch ::
  "arrival \<Rightarrow> failure + 'r LeaveRequest_scheme list response \<Rightarrow> failure + 's list response
     \<Rightarrow> ('r, 's, 'u) event list" where
  "initialFetch arr requests students =
     initialFetch_begin () @
     (case promiseAll arr (fetchLeaveRequests_resume requests)
             (fetchAllStudents_resume students) of
        (result, before, after) \<Rightarrow> before @ initialFetch_settle result @ after)"

text \<open>
  The stretches of the container's functions. Whatever the consumers of the container
  call and whenever the requests settle, the container's state changes by running such
  stretches one after the other.
\<close>

datatype ('r, 's, 'u, 'm) stretch =
    FetchLeaveRequestsBegin
  | FetchLeaveRequestsResume "failure + 'r LeaveRequest_scheme list response"
  | FetchAllStudentsBegin
  | FetchAllStudentsResume "failure + 's list response"
  | UpdateLeaveStatusBegin 'u
  | UpdateLeaveStatusResume 'u "failure + 'm response"
  | UpdateLeaveStatusSettle "failure option"
  | InitialFetchBegin
  | InitialFetchSettle "failure option"

fun events_of :: "('r, 's, 'u, 'm) stretch \<Rightarrow> ('r, 's, 'u) event list" where
  "events_of FetchLeaveRequestsBegin = fetchLeaveRequests_begin ()"
| "events_of (FetchLeaveRequestsResume outcome) = fst (fetchLeaveRequests_resume outcome)"
| "events_of FetchAllStudentsBegin = fetchAllStudents_begin ()"
| "events_of (FetchAllStudentsResume outcome) = fst (fetchAllStudents_resume outcome)"
| "events_of (UpdateLeaveStatusBegin update) = updateLeaveStatus_begin update"
| "events_of (UpdateLeaveStatusResume update updated) =
     fst (updateLeaveStatus_resume update updated)"
| "events_of (UpdateLeaveStatusSettle result) = updateLeaveStatus_settle result"
| "events_of InitialFetchBegin = initialFetch_begin ()"
| "events_of (InitialFetchSettle result) = initialFetch_settle result"

definition run_stretches ::
  "('r, 's, 'u, 'm) stretch list \<Rightarrow> ('r, 's) LeaveState \<Rightarrow> ('r, 's) LeaveState" where
  "run_stretches sts s = exec (concat (map events_of sts)) s"

text \<open>The counts shown are those of the collection shown.\<close>

definition consistent :: "('r, 's) LeaveState \<Rightarrow> bool" where
  "consistent s = (statusCounts s = calculateStatusCounts (leaveRequests s))"

text \<open>
  Two fetches in flight at the same time, as a consumer may trigger them: both have
  begun, in either order, before the request of either settles.
\<close>

definition concurrentFetches ::
  "operation \<Rightarrow> arrival \<Rightarrow> failure + 'r LeaveRequest_scheme list response
     \<Rightarrow> failure + 's list response \<Rightarrow> ('r, 's, 'u) event list" where
  "concurrentFetches firstCalled arr requests students =
     (case firstCalled of
        FetchLeaveRequests \<Rightarrow> fetchLeaveRequests_begin () @ fetchAllStudents_begin ()
      | FetchAllStudents \<Rightarrow> fetchAllStudents_begin () @ fetchLeaveRequests_begin ()) @
     (case arr of
        LeaveRequestsFirst \<Rightarrow>
          fst (fetchLeaveRequests_resume requests) @ fst (fetchAllStudents_resume students)
      | StudentsFirst \<Rightarrow>
          fst (fetchAllStudents_resume students) @ fst (fetchLeaveRequests_resume requests))"


text \<open>The slots of the state, and the slot that an event writes.\<close>

datatype slot = LeaveRequestsSlot | LoadingSlot | ErrorSlot | AllStudentsSlot | StatusCountsSlot

fun written :: "('r, 's, 'u) event \<Rightarrow> slot list" where
  "written (SetLeaveRequests _) = [LeaveRequestsSlot]"
| "written (SetLoading _) = [LoadingSlot]"
| "written (SetError _) = [ErrorSlot]"
| "written (SetAllStudents _) = [AllStudentsSlot]"
| "written (SetStatusCounts _) = [StatusCountsSlot]"
| "written (Effect _) = []"
| "written (ConsoleLogRequests _ _) = []"
| "written (ConsoleLogStudents _ _) = []"
| "written (Invoked _) = []"
| "written (Settled _) = []"

definition slots_written :: "('r, 's, 'u) event list \<Rightarrow> slot set" where
  "slots_written evs = set (concat (map written evs))"

section \<open>The hook\<close>

text \<open>
  \<^verbatim>\<open>useContext\<close> yields the value of the nearest enclosing provider, and the default
  of the context when there is none. The default of \<^verbatim>\<open>LeaveContext\<close> is
  \<^verbatim>\<open>undefined\<close> (\<open>None\<close>), and a \<^verbatim>\<open>LeaveProvider\<close> provides an object
  (\<open>Some value\<close>), which is truthy. \<open>providers\<close> lists the values of the enclosing
  providers, the nearest first.
\<close>

datatype js_error = Error string

definition useContext :: "'c \<Rightarrow> 'c list \<Rightarrow> 'c" where
  "useContext dflt providers = (case providers of [] \<Rightarrow> dflt | v # _ \<Rightarrow> v)"

definition useLeaveContext :: "'v list \<Rightarrow> js_error + 'v" where
  "useLeaveContext providers =
     (case useContext None (map Some providers) of
        None \<Rightarrow> Inl (Error ''useLeaveContext must be used within a LeaveProvider'')
      | Some context \<Rightarrow> Inr context)"

section \<open>Properties of the status counts\<close>

lemma fold_countRequest_total:
  "total (fold countRequest rs c) = total c"
  by (induction rs arbitrary: c) (simp_all add: countRequest_def)

lemma fold_countRequest_pending:
  "pending (fold countRequest rs c) = pending c + withStatus ''pending'' rs"
  by (induction rs arbitrary: c) (simp_all add: countRequest_def withStatus_def)

lemma fold_countRequest_approved:
  "approved (fold countRequest rs c) = approved c + withStatus ''approved'' rs"
  by (induction rs arbitrary: c) (simp_all add: countRequest_def withStatus_def)

lemma fold_countRequest_rejected:
  "rejected (fold countRequest rs c) = rejected c + withStatus ''rejected'' rs"
  by (induction rs arbitrary: c) (simp_all add: countRequest_def withStatus_def)

lemma status_partition:
  "withStatus ''pending'' rs + withStatus ''approved'' rs + withStatus ''rejected'' rs
     + unrecognized rs = length rs"
  by (induction rs) (simp_all add: withStatus_def unrecognized_def)

lemma calculateStatusCounts_Nil: "calculateStatusCounts [] = zeroCounts"
  by (simp add: calculateStatusCounts_def zeroCounts_def)

text \<open>
  Claim C1. For every collection of leave requests, the \<open>total\<close> of
  \<open>calculateStatusCounts\<close> is the length of the collection, each of the three buckets
  counts exactly the requests with that status, a request with any other status is
  counted in \<open>total\<close> and in no bucket (the three buckets and the unrecognized requests
  add up to \<open>total\<close>, so the buckets alone stay below it), and the four requests
  pending, approved, approved, rejected give the counts 1, 2, 1 and 4.
\<close>

theorem calculateStatusCounts_correct:
  "total (calculateStatusCounts rs) = length rs
   \<and> pending (calculateStatusCounts rs) = withStatus ''pending'' rs
   \<and> approved (calculateStatusCounts rs) = withStatus ''approved'' rs
   \<and> rejected (calculateStatusCounts rs) = withStatus ''rejected'' rs
   \<and> pending (calculateStatusCounts rs) + approved (calculateStatusCounts rs)
       + rejected (calculateStatusCounts rs) + unrecognized rs
       = total (calculateStatusCounts rs)
   \<and> pending (calculateStatusCounts rs) + approved (calculateStatusCounts rs)
       + rejected (calculateStatusCounts rs) \<le> total (calculateStatusCounts rs)
   \<and> calculateStatusCounts
        [\<lparr>status = ''pending''\<rparr>, \<lparr>status = ''approved''\<rparr>,
         \<lparr>status = ''approved''\<rparr>, \<lparr>status = ''rejected''\<rparr>]
       = \<lparr>pending = 1, approved = 2, rejected = 1, total = 4\<rparr>"
proof -
  have t: "total (calculateStatusCounts rs) = length rs"
    by (simp add: calculateStatusCounts_def fold_countRequest_total)
  have p: "pending (calculateStatusCounts rs) = withStatus ''pending'' rs"
    by (simp add: calculateStatusCounts_def fold_countRequest_pending)
  have a: "approved (calculateStatusCounts rs) = withStatus ''approved'' rs"
    by (simp add: calculateStatusCounts_def fold_countRequest_approved)
  have r: "rejected (calculateStatusCounts rs) = withStatus ''rejected'' rs"
    by (simp add: calculateStatusCounts_def fold_countRequest_rejected)
  have ex: "calculateStatusCounts
        [\<lparr>status = ''pending''\<rparr>, \<lparr>status = ''approved''\<rparr>,
         \<lparr>status = ''approved''\<rparr>, \<lparr>status = ''rejected''\<rparr>]
       = \<lparr>pending = 1, approved = 2, rejected = 1, total = 4\<rparr>"
    by (simp add: calculateStatusCounts_def countRequest_def)
  from status_partition [of rs] t p a r ex show ?thesis
    by simp
qed

section \<open>Properties of the remote API client\<close>

lemmas service_defs =
  leaveService_getAllLeaveRequests_def leaveService_getLeaveHistory_def
  leaveService_submitLeaveRequest_def
  leaveService_updateLeaveStatus_def leaveService_registerStudent_def
  leaveService_sendAIQuery_def leaveService_getTotalStudents_def
  leaveService_getAllStudents_def

lemmas enc_defs = unreserved_def percentEncoded_def hexDigit_def URIError_def

text \<open>\<^verbatim>\<open>encodeURIComponent\<close> at a name with a space, and at a lone surrogate.\<close>

lemma encodeURIComponent_space: "encodeURIComponent ''Ann Lee'' = Inr ''Ann%20Lee''"
  by (simp add: enc_defs)

lemma encodeURIComponent_lone_surrogate:
  "encodeURIComponent [CHR 0xED, CHR 0xA0, CHR 0x80] = Inl URIError"
  by (simp add: enc_defs)

text \<open>
  \<^verbatim>\<open>getLeaveHistoryByName\<close> is over in its \<^verbatim>\<open>catch\<close> clause when the encoding
  throws, and awaits its request otherwise; the other eight operations always await
  theirs.
\<close>

lemma getLeaveHistoryByName_throws:
  "encodeURIComponent name = Inl err \<Longrightarrow>
     \<exists>msg. (leaveService_getLeaveHistoryByName name st :: ('b, 'a) service_op)
       = Finished ([ConsoleError msg err], Inl err)"
  by (cases st) (simp_all add: leaveService_getLeaveHistoryByName_def)

lemma getLeaveHistoryByName_encodes:
  "encodeURIComponent name = Inr encoded \<Longrightarrow>
     \<exists>url msg. (leaveService_getLeaveHistoryByName name st :: ('b, 'a) service_op)
          = Awaits (GET url, \<lambda>outcome. case outcome of
                      Inr response \<Rightarrow> ([], Inr (data response))
                    | Inl err \<Rightarrow> ([ConsoleError msg err], Inl err))"
  by (cases st) (auto simp add: leaveService_getLeaveHistoryByName_def)

lemma leaveService_shape:
  assumes "oper \<in> set (leaveService studentId name st leaveRequest update student request)"
  shows "(\<exists>req msg. oper = Awaits (req, \<lambda>outcome. case outcome of
                      Inr response \<Rightarrow> ([], Inr (data response))
                    | Inl err \<Rightarrow> ([ConsoleError msg err], Inl err)))
       \<or> (\<exists>err msg. encodeURIComponent name = Inl err
             \<and> oper = leaveService_getLeaveHistoryByName name st
             \<and> oper = Finished ([ConsoleError msg err], Inl err))"
proof (cases "oper = leaveService_getLeaveHistoryByName name st")
  case True
  show ?thesis
  proof (cases "encodeURIComponent name")
    case (Inl err)
    from getLeaveHistoryByName_throws [OF Inl, of st] True show ?thesis
      using Inl by auto
  next
    case (Inr encoded)
    from getLeaveHistoryByName_encodes [OF Inr, of st] True show ?thesis
      by auto
  qed
next
  case False
  with assms show ?thesis
    by (auto simp add: leaveService_def service_defs)
qed

text \<open>The message that each of the nine operations logs with a failure, in their order.\<close>

lemma leaveService_contexts:
  "map (\<lambda>oper. loggedContexts (fst (invoke (rejecting err) oper)))
       (leaveService studentId name st leaveRequest update student request)
     = [[''Error fetching leave requests:''],
        [''Error fetching leave history for student '' @ studentId @ '':''],
        [''Error fetching leave history for student name '' @ name @ '':''],
        [''Error submitting leave request:''],
        [''Error updating leave status:''],
        [''Error registering student:''],
        [''Error sending AI query:''],
        [''Error fetching total students:''],
        [''Error fetching all students:'']]"
proof -
  have byName: "loggedContexts (fst (invoke (rejecting err)
                   (leaveService_getLeaveHistoryByName name st)))
                 = [''Error fetching leave history for student name '' @ name @ '':'']"
    by (cases "encodeURIComponent name"; cases st)
       (simp_all add: leaveService_getLeaveHistoryByName_def invoke_def perform_def
          rejecting_def loggedContexts_def)
  show ?thesis
    by (simp add: leaveService_def byName)
       (simp add: service_defs invoke_def perform_def rejecting_def loggedContexts_def)
qed

lemma getLeaveHistoryByName_no_call:
  "encodeURIComponent name = Inl err \<Longrightarrow>
     invoke apiClient (leaveService_getLeaveHistoryByName name st)
       = ([ConsoleError (''Error fetching leave history for student name '' @ name @ '':'')
             err], Inl err)"
  by (cases st) (simp_all add: leaveService_getLeaveHistoryByName_def invoke_def)

text \<open>
  Claim C9, amended. Every operation of \<open>leaveService\<close>, run against any client, issues
  at most one HTTP call. It issues none only when it is \<open>getLeaveHistoryByName\<close> and
  \<open>encodeURIComponent\<close> throws on the name; that failure is then logged once and thrown
  unchanged. In every other case, so whenever the name can be encoded, it issues exactly
  one call. When that call fails, the operation logs the failure once and throws that
  very failure, and nothing else happens, in particular no second call; when it
  succeeds, the operation returns the \<open>data\<close> of the response as it is and logs
  nothing. The message logged with a failure is the one of the operation.
\<close>

theorem leaveService_passthrough:
  "oper \<in> set (leaveService studentId name st leaveRequest update student request) \<Longrightarrow>
     length (httpCalls (fst (invoke apiClient oper))) \<le> 1
   \<and> (httpCalls (fst (invoke apiClient oper)) = [] \<longrightarrow>
        oper = leaveService_getLeaveHistoryByName name st
        \<and> (\<exists>err. encodeURIComponent name = Inl err
              \<and> snd (invoke apiClient oper) = Inl err
              \<and> loggedFailures (fst (invoke apiClient oper)) = [err]))
   \<and> (\<forall>encoded. encodeURIComponent name = Inr encoded \<longrightarrow>
        length (httpCalls (fst (invoke apiClient oper))) = 1)
   \<and> (\<forall>err. encodeURIComponent name = Inl err \<longrightarrow>
        invoke apiClient (leaveService_getLeaveHistoryByName name st)
          = ([ConsoleError (''Error fetching leave history for student name '' @ name @ '':'')
                err], Inl err))
   \<and> (\<forall>req err. httpCalls (fst (invoke apiClient oper)) = [req] \<and> apiClient req = Inl err \<longrightarrow>
         snd (invoke apiClient oper) = Inl err
       \<and> (\<exists>context. fst (invoke apiClient oper) = [HttpCall req, ConsoleError context err]))
   \<and> (\<forall>req response.
         httpCalls (fst (invoke apiClient oper)) = [req] \<and> apiClient req = Inr response \<longrightarrow>
         snd (invoke apiClient oper) = Inr (data response)
       \<and> fst (invoke apiClient oper) = [HttpCall req])
   \<and> map (\<lambda>oper. loggedContexts (fst (invoke (rejecting failed) oper)))
         (leaveService studentId name st leaveRequest update student request)
       = [[''Error fetching leave requests:''],
          [''Error fetching leave history for student '' @ studentId @ '':''],
          [''Error fetching leave history for student name '' @ name @ '':''],
          [''Error submitting leave request:''],
          [''Error updating leave status:''],
          [''Error registering student:''],
          [''Error sending AI query:''],
          [''Error fetching total students:''],
          [''Error fetching all students:'']]"
proof -
  assume "oper \<in> set (leaveService studentId name st leaveRequest update student request)"
  from leaveService_shape [OF this]
  have main:
    "length (httpCalls (fst (invoke apiClient oper))) \<le> 1
     \<and> (httpCalls (fst (invoke apiClient oper)) = [] \<longrightarrow>
          oper = leaveService_getLeaveHistoryByName name st
          \<and> (\<exists>err. encodeURIComponent name = Inl err
                \<and> snd (invoke apiClient oper) = Inl err
                \<and> loggedFailures (fst (invoke apiClient oper)) = [err]))
     \<and> (\<forall>encoded. encodeURIComponent name = Inr encoded \<longrightarrow>
          length (httpCalls (fst (invoke apiClient oper))) = 1)
     \<and> (\<forall>req err. httpCalls (fst (invoke apiClient oper)) = [req] \<and> apiClient req = Inl err \<longrightarrow>
           snd (invoke apiClient oper) = Inl err
         \<and> (\<exists>context. fst (invoke apiClient oper) = [HttpCall req, ConsoleError context err]))
     \<and> (\<forall>req response.
           httpCalls (fst (invoke apiClient oper)) = [req] \<and> apiClient req = Inr response \<longrightarrow>
           snd (invoke apiClient oper) = Inr (data response)
         \<and> fst (invoke apiClient oper) = [HttpCall req])"
  proof (elim disjE exE conjE)
    fix req msg
    assume oper: "oper = Awaits (req, \<lambda>outcome. case outcome of
                      Inr response \<Rightarrow> ([], Inr (data response))
                    | Inl err \<Rightarrow> ([ConsoleError msg err], Inl err))"
    show ?thesis
      by (cases "apiClient req") (simp_all add: oper invoke_def perform_def httpCalls_def)
  next
    fix err msg
    assume enc: "encodeURIComponent name = Inl err"
      and byName: "oper = leaveService_getLeaveHistoryByName name st"
      and oper: "oper = Finished ([ConsoleError msg err], Inl err)"
    have "invoke apiClient oper = ([ConsoleError msg err], Inl err)"
      by (simp add: oper invoke_def)
    with enc byName show ?thesis
      by (simp add: httpCalls_def loggedFailures_def)
  qed
  have thrown: "\<forall>err. encodeURIComponent name = Inl err \<longrightarrow>
        invoke apiClient (leaveService_getLeaveHistoryByName name st)
          = ([ConsoleError (''Error fetching leave history for student name '' @ name @ '':'')
                err], Inl err)"
    using getLeaveHistoryByName_no_call by blast
  from main thrown leaveService_contexts [of failed studentId name st leaveRequest update
      student request]
  show ?thesis
    by blast
qed

text \<open>
  The theorem at the history of the student \<open>Ann Lee\<close>, filtered by the status
  \<open>pending\<close>, against a client that rejects every request: the name is encoded, one
  call is issued, and its failure is logged once and thrown unchanged.
\<close>

theorem leaveService_passthrough_witness:
  "(leaveService_getLeaveHistoryByName ''Ann Lee'' (Some ''pending'') :: (unit, nat) service_op)
     \<in> set (leaveService ''s1'' ''Ann Lee'' (Some ''pending'') () () () ())
   \<and> encodeURIComponent ''Ann Lee'' = Inr ''Ann%20Lee''
   \<and> length (httpCalls (fst (invoke (rejecting (Failure ''Network Error''))
        (leaveService_getLeaveHistoryByName ''Ann Lee'' (Some ''pending'')
           :: (unit, nat) service_op)))) = 1
   \<and> invoke (rejecting (Failure ''Network Error''))
        (leaveService_getLeaveHistoryByName ''Ann Lee'' (Some ''pending'')
           :: (unit, nat) service_op)
     = ([HttpCall (GET ''/get_leave_history_by_name?name=Ann%20Lee&status=pending''),
         ConsoleError ''Error fetching leave history for student name Ann Lee:''
           (Failure ''Network Error'')],
        Inl (Failure ''Network Error''))"
proof -
  let ?oper = "leaveService_getLeaveHistoryByName ''Ann Lee'' (Some ''pending'')
                 :: (unit, nat) service_op"
  have member: "?oper \<in> set (leaveService ''s1'' ''Ann Lee'' (Some ''pending'') () () () ())"
    by (simp add: leaveService_def)
  from leaveService_passthrough [OF member, of "rejecting (Failure ''Network Error'')"]
  have one: "length (httpCalls (fst (invoke (rejecting (Failure ''Network Error'')) ?oper))) = 1"
    using encodeURIComponent_space by blast
  have run: "invoke (rejecting (Failure ''Network Error'')) ?oper
     = ([HttpCall (GET ''/get_leave_history_by_name?name=Ann%20Lee&status=pending''),
         ConsoleError ''Error fetching leave history for student name Ann Lee:''
           (Failure ''Network Error'')],
        Inl (Failure ''Network Error''))"
    by (simp add: leaveService_getLeaveHistoryByName_def enc_defs truthy_def
          invoke_def perform_def rejecting_def)
  from member encodeURIComponent_space one run show ?thesis
    by simp
qed

text \<open>
  The claim as it was written fails at the name that is one lone surrogate, U+D800:
  \<open>getLeaveHistoryByName\<close> issues no HTTP call, logs the \<^verbatim>\<open>URIError\<close> and throws it.
\<close>

theorem leaveService_one_call_counterexample:
  "length (httpCalls (fst (invoke (rejecting (Failure ''Network Error''))
       (leaveService_getLeaveHistoryByName [CHR 0xED, CHR 0xA0, CHR 0x80] None
          :: (unit, nat) service_op)))) \<noteq> 1
   \<and> invoke (rejecting (Failure ''Network Error''))
       (leaveService_getLeaveHistoryByName [CHR 0xED, CHR 0xA0, CHR 0x80] None
          :: (unit, nat) service_op)
      = ([ConsoleError (''Error fetching leave history for student name ''
                          @ [CHR 0xED, CHR 0xA0, CHR 0x80] @ '':'') URIError],
         Inl URIError)"
  by (simp add: leaveService_getLeaveHistoryByName_def invoke_def httpCalls_def enc_defs)

section \<open>Properties of the state container\<close>

lemmas container_defs =
  fetchAllStudents_begin_def fetchAllStudents_resume_def fetchAllStudents_def
  fetchLeaveRequests_begin_def fetchLeaveRequests_resume_def fetchLeaveRequests_def
  updateLeaveStatus_begin_def updateLeaveStatus_failed_def updateLeaveStatus_settle_def
  updateLeaveStatus_resume_def updateLeaveStatus_def
  initialFetch_begin_def initialFetch_settle_def initialFetch_def promiseAll_def

lemma exec_append: "exec (xs @ ys) s = exec ys (exec xs s)"
  by (simp add: exec_def)

text \<open>Neither fetch function rejects its promise: each catches whatever its request throws.\<close>

lemma fetchLeaveRequests_fulfilled: "snd (fetchLeaveRequests_resume outcome) = None"
  by (cases outcome)
     (simp_all add: fetchLeaveRequests_resume_def leaveService_getAllLeaveRequests_def)

lemma fetchAllStudents_fulfilled: "snd (fetchAllStudents_resume outcome) = None"
  by (cases outcome)
     (simp_all add: fetchAllStudents_resume_def leaveService_getAllStudents_def)

text \<open>
  Hence \<^verbatim>\<open>Promise.all\<close> is never rejected, and an update that succeeded and the
  initial fetch run their stretches in one of two orders.
\<close>

lemma updateLeaveStatus_trace:
  "updateLeaveStatus update (Inr response) arr requests students =
     updateLeaveStatus_begin update @ fetchLeaveRequests_begin () @ fetchAllStudents_begin () @
     (case arr of
        LeaveRequestsFirst \<Rightarrow>
          fst (fetchLeaveRequests_resume requests) @ fst (fetchAllStudents_resume students)
      | StudentsFirst \<Rightarrow>
          fst (fetchAllStudents_resume students) @ fst (fetchLeaveRequests_resume requests)) @
     [SetLoading False]"
  by (cases arr)
     (simp_all add: updateLeaveStatus_def updateLeaveStatus_resume_def promiseAll_def
        leaveService_updateLeaveStatus_def updateLeaveStatus_settle_def
        fetchLeaveRequests_fulfilled fetchAllStudents_fulfilled)

lemma initialFetch_trace:
  "initialFetch arr requests students =
     initialFetch_begin () @
     (case arr of
        LeaveRequestsFirst \<Rightarrow>
          fst (fetchLeaveRequests_resume requests) @ fst (fetchAllStudents_resume students)
      | StudentsFirst \<Rightarrow>
          fst (fetchAllStudents_resume students) @ fst (fetchLeaveRequests_resume requests)) @
     [SetLoading False]"
  by (cases arr)
     (simp_all add: initialFetch_def promiseAll_def initialFetch_settle_def
        fetchLeaveRequests_fulfilled fetchAllStudents_fulfilled)

text \<open>
  Claim C2. Whatever the outcome of the request, the promise of \<open>fetchLeaveRequests\<close>
  is fulfilled, never rejected. After a successful request the collection is the fetched
  data and the counts are those of that data; after a failed one the collection is empty,
  the counts are all zero and the error is the message of the operation.
\<close>

theorem fetchLeaveRequests_outcomes:
  "snd (fetchLeaveRequests_resume outcome) = None
   \<and> leaveRequests (exec (fetchLeaveRequests (Inr response)) s) = data response
   \<and> statusCounts (exec (fetchLeaveRequests (Inr response)) s)
       = calculateStatusCounts (data response)
   \<and> leaveRequests (exec (fetchLeaveRequests (Inl err)) s) = []
   \<and> statusCounts (exec (fetchLeaveRequests (Inl err)) s)
       = \<lparr>pending = 0, approved = 0, rejected = 0, total = 0\<rparr>
   \<and> error (exec (fetchLeaveRequests (Inl err)) s)
       = Some ''Failed to fetch leave requests. Please try again later.''"
proof -
  have "leaveRequests (exec (fetchLeaveRequests (Inr response)) s) = data response"
    and "statusCounts (exec (fetchLeaveRequests (Inr response)) s)
           = calculateStatusCounts (data response)"
    and "leaveRequests (exec (fetchLeaveRequests (Inl err)) s) = []"
    and "statusCounts (exec (fetchLeaveRequests (Inl err)) s)
           = \<lparr>pending = 0, approved = 0, rejected = 0, total = 0\<rparr>"
    and "error (exec (fetchLeaveRequests (Inl err)) s)
           = Some ''Failed to fetch leave requests. Please try again later.''"
    by (simp_all add: container_defs service_defs exec_def)
  with fetchLeaveRequests_fulfilled [of outcome] show ?thesis
    by simp
qed

text \<open>
  Claim C3. When the request of the update fails, \<open>updateLeaveStatus\<close> runs no fetch:
  after it the collection of leave requests, the collection of students and the counts
  are what they were before, the error is the message of the operation and \<open>loading\<close>
  is false.
\<close>

theorem updateLeaveStatus_failure_untouched:
  "leaveRequests (exec (updateLeaveStatus update (Inl err) arr requests students) s)
     = leaveRequests s
   \<and> allStudents (exec (updateLeaveStatus update (Inl err) arr requests students) s)
     = allStudents s
   \<and> statusCounts (exec (updateLeaveStatus update (Inl err) arr requests students) s)
     = statusCounts s
   \<and> error (exec (updateLeaveStatus update (Inl err) arr requests students) s)
     = Some ''Failed to update leave status. Please try again.''
   \<and> loading (exec (updateLeaveStatus update (Inl err) arr requests students) s) = False
   \<and> updateLeaveStatus update (Inl err) arr requests students
     = updateLeaveStatus_begin update
       @ [Effect (ConsoleError ''Error updating leave status:'' err)]
       @ updateLeaveStatus_failed err"
  by (simp add: container_defs service_defs exec_def)





text \<open>
  The invariant of claim C6: no stretch breaks it, so no sequence of stretches does, and
  it holds at the start.
\<close>

lemma consistent_stretch: "consistent s \<Longrightarrow> consistent (exec (events_of st) s)"
proof (cases st)
  case (FetchLeaveRequestsResume outcome)
  then show ?thesis
    by (cases outcome)
       (simp_all add: consistent_def container_defs service_defs exec_def
          calculateStatusCounts_def)
next
  case (FetchAllStudentsResume outcome)
  assume "consistent s"
  with FetchAllStudentsResume show ?thesis
    by (cases outcome) (simp_all add: consistent_def container_defs service_defs exec_def)
next
  case (UpdateLeaveStatusResume update updated)
  assume "consistent s"
  with UpdateLeaveStatusResume show ?thesis
    by (cases updated) (simp_all add: consistent_def container_defs service_defs exec_def)
next
  case (UpdateLeaveStatusSettle result)
  assume "consistent s"
  with UpdateLeaveStatusSettle show ?thesis
    by (cases result) (simp_all add: consistent_def container_defs service_defs exec_def)
next
  case (InitialFetchSettle result)
  assume "consistent s"
  with InitialFetchSettle show ?thesis
    by (cases result) (simp_all add: consistent_def container_defs service_defs exec_def)
qed (simp_all add: consistent_def container_defs service_defs exec_def)

lemma consistent_run: "consistent s \<Longrightarrow> consistent (run_stretches sts s)"
proof (induction sts arbitrary: s)
  case Nil
  then show ?case by (simp add: run_stretches_def exec_def)
next
  case (Cons st sts)
  from Cons.prems have "consistent (exec (events_of st) s)"
    by (rule consistent_stretch)
  then have "consistent (run_stretches sts (exec (events_of st) s))"
    by (rule Cons.IH)
  then show ?case by (simp add: run_stretches_def exec_append)
qed

lemma consistent_initialState: "consistent initialState"
  by (simp add: consistent_def initialState_def calculateStatusCounts_def zeroCounts_def)

text \<open>The operations of the container are sequences of stretches.\<close>

lemma fetchLeaveRequests_stretches:
  "exec (fetchLeaveRequests outcome :: ('r, 's, 'u) event list) s
     = run_stretches
         ([FetchLeaveRequestsBegin, FetchLeaveRequestsResume outcome]
            :: ('r, 's, 'u, 'm) stretch list) s"
  by (simp add: run_stretches_def fetchLeaveRequests_def)

lemma fetchAllStudents_stretches:
  "exec (fetchAllStudents outcome :: ('r, 's, 'u) event list) s
     = run_stretches
         ([FetchAllStudentsBegin, FetchAllStudentsResume outcome]
            :: ('r, 's, 'u, 'm) stretch list) s"
  by (simp add: run_stretches_def fetchAllStudents_def)

lemma initialFetch_stretches:
  "exec (initialFetch arr requests students :: ('r, 's, 'u) event list) s
     = run_stretches
         ((InitialFetchBegin :: ('r, 's, 'u, 'm) stretch) #
          (case arr of
             LeaveRequestsFirst \<Rightarrow>
               [FetchLeaveRequestsResume requests, FetchAllStudentsResume students]
           | StudentsFirst \<Rightarrow>
               [FetchAllStudentsResume students, FetchLeaveRequestsResume requests]) @
          [InitialFetchSettle None]) s"
  by (cases arr) (simp_all add: run_stretches_def initialFetch_trace initialFetch_settle_def)

lemma updateLeaveStatus_stretches:
  "exec (updateLeaveStatus update updated arr requests students) s
     = run_stretches
         (case updated of
            Inl err \<Rightarrow> [UpdateLeaveStatusBegin update, UpdateLeaveStatusResume update updated]
          | Inr response \<Rightarrow>
              [UpdateLeaveStatusBegin update, UpdateLeaveStatusResume update updated] @
              (case arr of
                 LeaveRequestsFirst \<Rightarrow>
                   [FetchLeaveRequestsResume requests, FetchAllStudentsResume students]
               | StudentsFirst \<Rightarrow>
                   [FetchAllStudentsResume students, FetchLeaveRequestsResume requests]) @
              [UpdateLeaveStatusSettle None]) s"
proof (cases updated)
  case (Inl err)
  then show ?thesis
    by (simp add: run_stretches_def updateLeaveStatus_def updateLeaveStatus_resume_def
          leaveService_updateLeaveStatus_def)
next
  case (Inr response)
  then show ?thesis
    by (cases arr)
       (simp_all add: run_stretches_def updateLeaveStatus_trace updateLeaveStatus_resume_def
          leaveService_updateLeaveStatus_def updateLeaveStatus_settle_def)
qed

text \<open>
  Claim C6. From the initial state of the provider, after any sequence of stretches of
  the container's functions, and so after every operation and in whatever way concurrent
  operations interleave, the counts are those of the current collection of leave
  requests. A fetch of the leave requests, an initial fetch and an update that succeeded
  end in such a state from any state at all; a fetch of the students and an update that
  failed leave the collection and the counts as they were.
\<close>

theorem container_consistent:
  "consistent (run_stretches sts initialState)
   \<and> consistent (exec (fetchLeaveRequests outcome) s)
   \<and> consistent (exec (initialFetch arr requests students) s)
   \<and> consistent (exec (updateLeaveStatus update (Inr response) arr requests students) s)
   \<and> consistent (exec (fetchAllStudents outcome') s) = consistent s
   \<and> consistent (exec (updateLeaveStatus update (Inl err) arr requests students) s)
       = consistent s"
proof -
  have run: "consistent (run_stretches sts initialState)"
    using consistent_initialState by (rule consistent_run)
  have fetch: "consistent (exec (fetchLeaveRequests outcome) s)"
    by (cases outcome)
       (simp_all add: consistent_def container_defs service_defs exec_def
          calculateStatusCounts_def)
  have initial: "consistent (exec (initialFetch arr requests students) s)"
    by (cases arr; cases requests; cases students)
       (simp_all add: consistent_def container_defs service_defs exec_def
          calculateStatusCounts_def)
  have updated: "consistent (exec (updateLeaveStatus update (Inr response) arr requests
                                     students) s)"
    by (cases arr; cases requests; cases students)
       (simp_all add: consistent_def container_defs service_defs exec_def
          calculateStatusCounts_def)
  have studs: "consistent (exec (fetchAllStudents outcome') s) = consistent s"
    by (cases outcome')
       (simp_all add: consistent_def container_defs service_defs exec_def)
  have failed: "consistent (exec (updateLeaveStatus update (Inl err) arr requests students) s)
                  = consistent s"
    by (simp add: consistent_def container_defs service_defs exec_def)
  from run fetch initial updated studs failed show ?thesis
    by simp
qed

text \<open>
  Claim C7. The state has one \<open>error\<close> slot, and the last \<open>SetError\<close> to run decides
  it. Whatever the outcome of its request, each of the two fetch functions starts with
  clearing the error, before it issues the request: the error is \<open>None\<close> after the
  first two events of the function and at the end of its first stretch.
\<close>

theorem fetch_clears_error_first:
  "take 3 (fetchLeaveRequests outcome) =
      [Invoked FetchLeaveRequests, SetError None,
       Effect (HttpCall (GET ''/get_all_leave_requests''))]
   \<and> take 3 (fetchAllStudents outcome') =
      [Invoked FetchAllStudents, SetError None,
       Effect (HttpCall (GET ''/get_all_students''))]
   \<and> error (exec (take 2 (fetchLeaveRequests outcome)) s) = None
   \<and> error (exec (take 2 (fetchAllStudents outcome')) s) = None
   \<and> error (exec (fetchLeaveRequests_begin ()) s) = None
   \<and> error (exec (fetchAllStudents_begin ()) s) = None
   \<and> error (exec (evs @ [SetError e]) s) = e"
  by (simp add: fetchLeaveRequests_def fetchAllStudents_def fetchLeaveRequests_begin_def
        fetchAllStudents_begin_def service_defs exec_def)

text \<open>
  Claim C8. Let \<open>fetchLeaveRequests\<close> and \<open>fetchAllStudents\<close> be in flight together,
  begun in either order and settling in either order. When the first fails and the
  second succeeds, the error at the end is the message of \<open>fetchLeaveRequests\<close>, the
  only error raised, the students are the fetched ones, and the collection of leave
  requests is empty with zero counts. When both fail, the error at the end is the
  message of the one that settles last. \<open>fetchLeaveRequests\<close> writes the collection of
  leave requests, the counts and the error; \<open>fetchAllStudents\<close> writes the students and
  the error: the error is the only slot written by both.
\<close>

theorem concurrent_fetch_error_race:
  "error (exec (concurrentFetches firstCalled arr (Inl err) (Inr response)) s)
      = Some ''Failed to fetch leave requests. Please try again later.''
   \<and> allStudents (exec (concurrentFetches firstCalled arr (Inl err) (Inr response)) s)
      = data response
   \<and> leaveRequests (exec (concurrentFetches firstCalled arr (Inl err) (Inr response)) s) = []
   \<and> statusCounts (exec (concurrentFetches firstCalled arr (Inl err) (Inr response)) s)
      = zeroCounts
   \<and> error (exec (concurrentFetches firstCalled LeaveRequestsFirst (Inl err) (Inl err')) s)
      = Some ''Failed to fetch students. Please try again later.''
   \<and> error (exec (concurrentFetches firstCalled StudentsFirst (Inl err) (Inl err')) s)
      = Some ''Failed to fetch leave requests. Please try again later.''
   \<and> slots_written (fetchLeaveRequests outcome)
      = {LeaveRequestsSlot, StatusCountsSlot, ErrorSlot}
   \<and> slots_written (fetchAllStudents outcome') = {AllStudentsSlot, ErrorSlot}
   \<and> slots_written (fetchLeaveRequests outcome) \<inter> slots_written (fetchAllStudents outcome')
      = {ErrorSlot}"
  by (cases firstCalled; cases arr; cases outcome; cases outcome')
     (auto simp add: concurrentFetches_def container_defs service_defs exec_def zeroCounts_def
        slots_written_def)

section \<open>Properties of the hook\<close>

text \<open>
  Claim C10. Called with no enclosing \<open>LeaveProvider\<close>, \<open>useLeaveContext\<close> throws the
  error with the message \<open>useLeaveContext must be used within a LeaveProvider\<close>; called
  inside providers, it returns the value of the nearest one and does not throw.
\<close>

theorem useLeaveContext_guard:
  "useLeaveContext [] = Inl (Error ''useLeaveContext must be used within a LeaveProvider'')
   \<and> useLeaveContext (v # vs) = Inr v"
  by (simp add: useLeaveContext_def useContext_def)

end
